theory Spec2Isabelle
  imports Main "HOL-Library.Word" "HOL-Library.Signed_Division"
begin

unbundle bit_operations_syntax

section \<open>Data model of event-timer.c\<close>

text \<open>
  Pointers are addresses; address \<open>0\<close> is the null pointer. An \<open>EM *\<close>, an
  \<open>Event_timer *\<close>, a \<open>void *\<close> and an \<open>Event_timer_handler\<close> function pointer are
  all addresses.
\<close>

type_synonym ptr = nat

abbreviation NULL :: ptr where
  "NULL \<equiv> 0"

text \<open>
  The \<open>handler\<close> field of a descriptor holds either the all-zero bit pattern left by
  \<open>memset\<close> or the address of \<open>internal_timeout_handler\<close>, the only handler this file
  ever stores.
\<close>

datatype handler_ref = No_handler | Internal_timeout_handler

text \<open>
  \<open>Event_descriptor\<close> and \<open>Event_timer\<close>, with the fields the source reads and writes
  (\<open>timer->event_descriptor.fd\<close>, \<open>.events\<close>, \<open>.data\<close>, \<open>.handler\<close>;
  \<open>timer->event_machine\<close>, \<open>timer->data\<close>, \<open>timer->callback\<close>). The descriptor's \<open>data\<close>
  field is called \<open>ed_data\<close> here, since the timer has a field \<open>data\<close> of its own.
\<close>

record Event_descriptor =
  fd :: int
  events :: "32 word"
  ed_data :: ptr
  handler :: handler_ref

record Event_timer =
  event_machine :: ptr
  event_descriptor :: Event_descriptor
  data :: ptr
  callback :: ptr

text \<open>The accessor macros \<open>TIMER_FD\<close>, \<open>TIMER_EM\<close>, \<open>TIMER_ED\<close>, \<open>TIMER_DATA\<close>, \<open>TIMER_CALLBACK\<close>.\<close>

definition TIMER_FD :: "Event_timer \<Rightarrow> int" where
  "TIMER_FD timer = fd (event_descriptor timer)"

definition TIMER_EM :: "Event_timer \<Rightarrow> ptr" where
  "TIMER_EM timer = event_machine timer"

definition TIMER_ED :: "Event_timer \<Rightarrow> Event_descriptor" where
  "TIMER_ED timer = event_descriptor timer"

definition TIMER_DATA :: "Event_timer \<Rightarrow> ptr" where
  "TIMER_DATA timer = data timer"

definition TIMER_CALLBACK :: "Event_timer \<Rightarrow> ptr" where
  "TIMER_CALLBACK timer = callback timer"

text \<open>\<open>struct timespec\<close> and \<open>struct itimerspec\<close> of the kernel interface.\<close>

record timespec =
  tv_sec :: int
  tv_nsec :: int

record itimerspec =
  it_interval :: timespec
  it_value :: timespec

text \<open>
  Modelled from the spec: the status enumeration of \<open>event-machine/result.h\<close>, which is
  not among the sources. The spec calls it a small closed enumeration (success,
  null-reactor, null-timer, null-callback, invalid-handle, arm-failed,
  unregister-failed, close-failed) of distinct values; the constructors carry the names
  event-timer.c uses, and \<open>EM_ERROR_OTHER\<close> stands for every further status the Reactor
  may report from registration or removal.
\<close>

datatype em_status =
    EM_SUCCESS
  | EM_ERROR_NULL
  | EM_ERROR_TIMER_NULL
  | EM_ERROR_CALLBACK_NULL
  | EM_ERROR_DESCRIPTOR_NULL
  | EM_ERROR_BADFD
  | EM_ERROR_TIMERFD_SETTIME
  | EM_ERROR_CLOSE
  | EM_ERROR_OTHER nat

text \<open>
  Modelled from the spec: the macros of \<open>event-machine/result-internal.h\<close>, which is not
  among the sources. \<open>valid_fd\<close> accepts the non-negative handles (the sentinel \<open>-1\<close> is
  the invalid one), \<open>if_invalid_fd\<close> is its negation, \<open>if_negative (x)\<close> tests \<open>x < 0\<close>,
  \<open>if_null (p)\<close> tests \<open>p = NULL\<close> and \<open>if_em_failure (ret)\<close> tests \<open>ret \<noteq> EM_SUCCESS\<close>.
\<close>

definition valid_fd :: "int \<Rightarrow> bool" where
  "valid_fd d = (0 \<le> d)"

text \<open>Constants of the system headers (Linux).\<close>

definition EPOLLIN :: "32 word" where
  "EPOLLIN = 1"

definition CLOCK_MONOTONIC :: int where
  "CLOCK_MONOTONIC = 1"

definition TFD_CLOEXEC :: int where
  "TFD_CLOEXEC = 524288"

definition TFD_NONBLOCK :: int where
  "TFD_NONBLOCK = 2048"

definition EAGAIN :: int where
  "EAGAIN = 11"

definition EBADF :: int where
  "EBADF = 9"

section \<open>The world outside the function bodies\<close>

text \<open>
  Every call that leaves event-timer.c (into the kernel or into the Reactor) is
  recorded, with its arguments, in the order it is made. The descriptor handed to
  \<open>event_machine_add\<close> is embedded in the timer, so its address is given by the address
  of the timer; the record also keeps the descriptor's contents at the time of the call.
\<close>

datatype call =
    Timerfd_create int int
  | Timerfd_settime int int itimerspec
  | Close int
  | Read int nat
  | Event_machine_add ptr ptr Event_descriptor
  | Event_machine_delete ptr int

text \<open>
  The state: the \<open>Event_timer\<close> storage at every address, \<open>errno\<close>, and the calls made
  so far.
\<close>

record world =
  timers :: "ptr \<Rightarrow> Event_timer"
  errno :: int
  calls :: "call list"

text \<open>
  What the kernel or the Reactor answers is not decided by event-timer.c: each external
  call takes its answer as a parameter, the value returned together with the value of
  \<open>errno\<close> once the call is over.
\<close>

type_synonym 'a reply = "'a \<times> int"

definition timerfd_create :: "int reply \<Rightarrow> int \<Rightarrow> int \<Rightarrow> world \<Rightarrow> int \<times> world" where
  "timerfd_create r clockid flags w =
     (fst r, w\<lparr>errno := snd r, calls := calls w @ [Timerfd_create clockid flags]\<rparr>)"

definition timerfd_settime :: "int reply \<Rightarrow> int \<Rightarrow> int \<Rightarrow> itimerspec \<Rightarrow> world \<Rightarrow> int \<times> world" where
  "timerfd_settime r d flags new_value w =
     (fst r, w\<lparr>errno := snd r, calls := calls w @ [Timerfd_settime d flags new_value]\<rparr>)"

definition close :: "int reply \<Rightarrow> int \<Rightarrow> world \<Rightarrow> int \<times> world" where
  "close r d w = (fst r, w\<lparr>errno := snd r, calls := calls w @ [Close d]\<rparr>)"

definition read :: "(int \<times> 64 word) reply \<Rightarrow> int \<Rightarrow> nat \<Rightarrow> world \<Rightarrow> (int \<times> 64 word) \<times> world" where
  "read r d count w = (fst r, w\<lparr>errno := snd r, calls := calls w @ [Read d count]\<rparr>)"

definition event_machine_add :: "em_status reply \<Rightarrow> ptr \<Rightarrow> ptr \<Rightarrow> world \<Rightarrow> em_status \<times> world" where
  "event_machine_add r em timer w =
     (fst r, w\<lparr>errno := snd r,
               calls := calls w @ [Event_machine_add em timer (TIMER_ED (timers w timer))]\<rparr>)"

definition event_machine_delete :: "em_status reply \<Rightarrow> ptr \<Rightarrow> int \<Rightarrow> world \<Rightarrow> em_status \<times> world" where
  "event_machine_delete r em d w =
     (fst r, w\<lparr>errno := snd r, calls := calls w @ [Event_machine_delete em d]\<rparr>)"

text \<open>A failed \<open>assert\<close> aborts the process; calling or reading through a null pointer kills it.\<close>

datatype fault = Assertion_failed | Null_dereference | Null_call

text \<open>An assignment to a field of the timer stored at an address.\<close>

definition store :: "ptr \<Rightarrow> (Event_timer \<Rightarrow> Event_timer) \<Rightarrow> world \<Rightarrow> world" where
  "store timer f w = w\<lparr>timers := (timers w)(timer := f (timers w timer))\<rparr>"

section \<open>The functions of event-timer.c\<close>

text \<open>\<open>memset(timer, 0, sizeof(Event_timer))\<close>: every pointer null, every number zero.\<close>

definition zeroed :: Event_timer where
  "zeroed = \<lparr>event_machine = NULL,
             event_descriptor = \<lparr>fd = 0, events = 0, ed_data = NULL, handler = No_handler\<rparr>,
             data = NULL, callback = NULL\<rparr>"

definition shred :: "ptr \<Rightarrow> world \<Rightarrow> world" where
  "shred timer w =
     (let w1 = store timer (\<lambda>t. zeroed) w;
          w2 = store timer (\<lambda>t. t\<lparr>event_descriptor := (event_descriptor t)\<lparr>fd := - 1\<rparr>\<rparr>) w1;
          w3 = store timer (\<lambda>t. t\<lparr>event_descriptor := (event_descriptor t)\<lparr>fd := - 1\<rparr>\<rparr>) w2
      in w3)"

definition event_timer_create ::
  "int reply \<Rightarrow> em_status reply \<Rightarrow> int reply \<Rightarrow> ptr \<Rightarrow> ptr \<Rightarrow> ptr \<Rightarrow> ptr \<Rightarrow> world
     \<Rightarrow> fault + (em_status \<times> world)" where
  "event_timer_create r_create r_add r_close em timer cb dat w =
     (if em = NULL then Inr (EM_ERROR_NULL, w)
      else if timer = NULL then Inr (EM_ERROR_TIMER_NULL, w)
      else if cb = NULL then Inr (EM_ERROR_CALLBACK_NULL, w)
      else
        let w1 = store timer (\<lambda>t. t\<lparr>event_machine := em\<rparr>) w;
            w2 = store timer (\<lambda>t. t\<lparr>data := dat\<rparr>) w1;
            w3 = store timer (\<lambda>t. t\<lparr>callback := cb\<rparr>) w2;
            (d, w4) = timerfd_create r_create CLOCK_MONOTONIC (TFD_CLOEXEC OR TFD_NONBLOCK) w3
        in
          if \<not> valid_fd d then Inr (EM_ERROR_BADFD, w4)
          else
            let w5 = store timer (\<lambda>t. t\<lparr>event_descriptor := (event_descriptor t)\<lparr>fd := d\<rparr>\<rparr>) w4;
                w6 = store timer
                       (\<lambda>t. t\<lparr>event_descriptor := (event_descriptor t)\<lparr>events := EPOLLIN\<rparr>\<rparr>) w5;
                w7 = store timer
                       (\<lambda>t. t\<lparr>event_descriptor := (event_descriptor t)\<lparr>ed_data := timer\<rparr>\<rparr>) w6;
                w8 = store timer
                       (\<lambda>t. t\<lparr>event_descriptor :=
                               (event_descriptor t)\<lparr>handler := Internal_timeout_handler\<rparr>\<rparr>) w7;
                (ret, w9) = event_machine_add r_add em timer w8
            in
              if ret \<noteq> EM_SUCCESS then
                let saved_errno = errno w9 in
                  if ret = EM_ERROR_NULL then Inl Assertion_failed
                  else if ret = EM_ERROR_DESCRIPTOR_NULL then Inl Assertion_failed
                  else
                    let (c, w10) = close r_close d w9;
                        w11 = shred timer w10;
                        w12 = w11\<lparr>errno := saved_errno\<rparr>
                    in Inr (ret, w12)
              else Inr (ret, w9))"

text \<open>
  \<open>msec\<close> is an \<open>int32_t\<close>; \<open>/\<close> and \<open>%\<close> of C truncate towards zero (\<open>sdiv\<close>, \<open>smod\<close>).
  The product \<open>(msec % 1000) * 1000\<close> stays below a million in absolute value, so it
  does not overflow an \<open>int\<close>; \<open>tv_sec\<close> and \<open>tv_nsec\<close> are wider than \<open>int\<close>.
\<close>

definition event_timer_start :: "int reply \<Rightarrow> ptr \<Rightarrow> 32 word \<Rightarrow> world \<Rightarrow> em_status \<times> world" where
  "event_timer_start r_settime timer msec w =
     (if timer = NULL then (EM_ERROR_TIMER_NULL, w)
      else
        let expiration_time =
              \<lparr>tv_sec = sint msec sdiv 1000, tv_nsec = (sint msec smod 1000) * 1000\<rparr>;
            expiration = \<lparr>it_interval = expiration_time, it_value = expiration_time\<rparr>;
            (r, w1) = timerfd_settime r_settime (TIMER_FD (timers w timer)) 0 expiration w
        in if r < 0 then (EM_ERROR_TIMERFD_SETTIME, w1) else (EM_SUCCESS, w1))"

definition event_timer_stop :: "int reply \<Rightarrow> ptr \<Rightarrow> world \<Rightarrow> em_status \<times> world" where
  "event_timer_stop r_settime timer w =
     (let expiration = \<lparr>it_interval = \<lparr>tv_sec = 0, tv_nsec = 0\<rparr>,
                        it_value = \<lparr>tv_sec = 0, tv_nsec = 0\<rparr>\<rparr>
      in
        if timer = NULL then (EM_ERROR_TIMER_NULL, w)
        else
          let (r, w1) = timerfd_settime r_settime (TIMER_FD (timers w timer)) 0 expiration w
          in if r < 0 then (EM_ERROR_TIMERFD_SETTIME, w1) else (EM_SUCCESS, w1))"

text \<open>
  The source keeps the status of \<open>event_machine_delete\<close> in an \<open>int\<close> and returns it as
  \<open>uint32_t\<close>; the statuses are small, so the value returned is the status received.
\<close>

definition event_timer_destroy ::
  "em_status reply \<Rightarrow> int reply \<Rightarrow> ptr \<Rightarrow> world \<Rightarrow> fault + (em_status \<times> world)" where
  "event_timer_destroy r_delete r_close timer w =
     (if timer = NULL then Inr (EM_ERROR_TIMER_NULL, w)
      else
        let (ret, w1) = event_machine_delete r_delete
                          (TIMER_EM (timers w timer)) (TIMER_FD (timers w timer)) w
        in
          if ret \<noteq> EM_SUCCESS then
            let saved_errno = errno w1 in
              if ret = EM_ERROR_NULL then Inl Assertion_failed
              else if ret = EM_ERROR_DESCRIPTOR_NULL then Inl Assertion_failed
              else
                let (c, w2) = close r_close (TIMER_FD (timers w1 timer)) w1;
                    w3 = w2\<lparr>errno := saved_errno\<rparr>
                in Inr (ret, w3)
          else
            let (c, w2) = close r_close (TIMER_FD (timers w1 timer)) w1
            in if c < 0 then Inr (EM_ERROR_CLOSE, w2)
               else Inr (EM_SUCCESS, shred timer w2))"

text \<open>
  The user callback is code outside this file: \<open>exec cb timer dat\<close> is what running the
  function at address \<open>cb\<close> on the arguments \<open>(timer, dat)\<close> does to the world, for
  callbacks that return. An invocation is the triple of the function called and its two
  arguments; the handler's invocations are collected in the order they are made.
\<close>

type_synonym invocation = "ptr \<times> ptr \<times> ptr"

text \<open>
  The \<open>for\<close> loop of \<open>internal_timeout_handler\<close>, by the number of rounds left. Each round
  reads the callback and the user data from the timer again.
\<close>

primrec drain ::
  "(ptr \<Rightarrow> ptr \<Rightarrow> ptr \<Rightarrow> world \<Rightarrow> world) \<Rightarrow> nat \<Rightarrow> ptr \<Rightarrow> invocation list \<Rightarrow> world
     \<Rightarrow> fault + (invocation list \<times> world)" where
  "drain exec 0 dat made w = Inr (made, w)"
| "drain exec (Suc k) dat made w =
     (if dat = NULL then Inl Null_dereference
      else
        let timer = dat;
            cb = TIMER_CALLBACK (timers w timer);
            arg = TIMER_DATA (timers w timer)
        in if cb = NULL then Inl Null_call
           else drain exec k dat (made @ [(cb, timer, arg)]) (exec cb timer arg w))"

definition internal_timeout_handler ::
  "(ptr \<Rightarrow> ptr \<Rightarrow> ptr \<Rightarrow> world \<Rightarrow> world) \<Rightarrow> (int \<times> 64 word) reply \<Rightarrow> ptr \<Rightarrow> 32 word \<Rightarrow> int \<Rightarrow> ptr
     \<Rightarrow> world \<Rightarrow> fault + (invocation list \<times> world)" where
  "internal_timeout_handler exec r_read em evs d dat w =
     (if em = NULL then Inl Assertion_failed
      else if \<not> valid_fd d then Inl Assertion_failed
      else
        let ((readed, number_of_timeouts), w1) = read r_read d 8 w
        in
          if readed \<noteq> 8 \<and> errno w1 = EAGAIN then Inr ([], w1)
          else if readed \<noteq> 8 then Inl Assertion_failed
          else drain exec (unat number_of_timeouts) dat [] w1)"

section \<open>Concrete inputs\<close>

text \<open>
  The state the claims call destroyed: the structure zeroed, the handle set to the
  sentinel \<open>-1\<close>.
\<close>

definition destroyed :: Event_timer where
  "destroyed = \<lparr>event_machine = NULL,
                event_descriptor = \<lparr>fd = - 1, events = 0, ed_data = NULL, handler = No_handler\<rparr>,
                data = NULL, callback = NULL\<rparr>"

text \<open>A world in which nothing has happened yet: all storage zero, no call made.\<close>

definition blank_world :: world where
  "blank_world = \<lparr>timers = (\<lambda>a. zeroed), errno = 0, calls = []\<rparr>"

text \<open>
  A created timer at address \<open>1\<close>: Reactor at address \<open>7\<close>, kernel handle \<open>3\<close>, callback at
  address \<open>5\<close>, user data at address \<open>9\<close>; and the world a successful
  \<open>event_timer_create\<close> leaves behind in \<open>blank_world\<close>.
\<close>

definition example_timer :: Event_timer where
  "example_timer = \<lparr>event_machine = 7,
                    event_descriptor = \<lparr>fd = 3, events = EPOLLIN, ed_data = 1,
                                          handler = Internal_timeout_handler\<rparr>,
                    data = 9, callback = 5\<rparr>"

definition example_world :: world where
  "example_world =
     \<lparr>timers = (\<lambda>a. zeroed)(1 := example_timer), errno = 0,
      calls = [Timerfd_create CLOCK_MONOTONIC (TFD_CLOEXEC OR TFD_NONBLOCK),
               Event_machine_add 7 1 (event_descriptor example_timer)]\<rparr>"

text \<open>The world after that timer has been destroyed successfully.\<close>

definition destroyed_world :: world where
  "destroyed_world =
     example_world\<lparr>timers := (\<lambda>a. zeroed)(1 := destroyed),
                   calls := calls example_world @ [Event_machine_delete 7 3, Close 3]\<rparr>"

text \<open>
  Two user callbacks. The first destroys its own timer, with the Reactor and the kernel
  accepting the removal and the close; the second only leaves a mark in \<open>errno\<close>.
\<close>

definition destroying_callback :: "ptr \<Rightarrow> ptr \<Rightarrow> ptr \<Rightarrow> world \<Rightarrow> world" where
  "destroying_callback cb timer arg w =
     (case event_timer_destroy (EM_SUCCESS, 0) (0, 0) timer w of
        Inl f \<Rightarrow> w
      | Inr (s, w') \<Rightarrow> w')"

definition counting_callback :: "ptr \<Rightarrow> ptr \<Rightarrow> ptr \<Rightarrow> world \<Rightarrow> world" where
  "counting_callback cb timer arg w = w\<lparr>errno := errno w + 1\<rparr>"

section \<open>Auxiliary facts\<close>

lemmas ext_defs = timerfd_create_def timerfd_settime_def close_def read_def
  event_machine_add_def event_machine_delete_def

lemmas acc_defs = TIMER_FD_def TIMER_EM_def TIMER_ED_def TIMER_DATA_def TIMER_CALLBACK_def

lemma shred_eq: "shred timer w = w\<lparr>timers := (timers w)(timer := destroyed)\<rparr>"
  by (simp add: shred_def store_def zeroed_def destroyed_def Let_def)

lemma create_example:
  "event_timer_create (3, 0) (EM_SUCCESS, 0) (0, 0) 7 1 5 9 blank_world =
     Inr (EM_SUCCESS, example_world)"
  by (simp add: event_timer_create_def ext_defs acc_defs store_def Let_def valid_fd_def
      blank_world_def example_world_def example_timer_def zeroed_def)

text \<open>
  What \<open>event_timer_start\<close> does on a non-null timer: one set-time call on the timer's
  handle, interval and first expiry the same \<open>timespec\<close>, and the status decided by the
  sign of the kernel's answer. For a non-negative \<open>msec\<close> the seconds are \<open>msec div 1000\<close>
  and the \<open>tv_nsec\<close> field is \<open>(msec mod 1000) * 1000\<close>.
\<close>

lemma start_arms:
  assumes "timer \<noteq> NULL" and "0 \<le> sint msec"
  shows "event_timer_start (r, e) timer msec w =
           (if r < 0 then EM_ERROR_TIMERFD_SETTIME else EM_SUCCESS,
            w\<lparr>errno := e,
              calls := calls w @
                [Timerfd_settime (fd (event_descriptor (timers w timer))) 0
                   \<lparr>it_interval = \<lparr>tv_sec = sint msec div 1000,
                                   tv_nsec = (sint msec mod 1000) * 1000\<rparr>,
                    it_value = \<lparr>tv_sec = sint msec div 1000,
                                tv_nsec = (sint msec mod 1000) * 1000\<rparr>\<rparr>]\<rparr>)"
  using assms
  by (simp add: event_timer_start_def ext_defs acc_defs Let_def
      signed_divide_int_def signed_modulo_int_def sgn_if)

lemma drain_numeral:
  "drain exec (numeral k) dat made w = drain exec (Suc (pred_numeral k)) dat made w"
  by (simp only: numeral_eq_Suc)

text \<open>
  The loop under a callback that leaves the timer's \<open>callback\<close> and \<open>data\<close> fields as they
  are: \<open>k\<close> rounds make \<open>k\<close> invocations of that callback, one after the other.
\<close>

lemma drain_steady:
  assumes "dat \<noteq> NULL" and "cb \<noteq> NULL"
    and "\<And>v. callback (timers v dat) = cb \<Longrightarrow> data (timers v dat) = ud \<Longrightarrow>
           callback (timers (exec cb dat ud v) dat) = cb \<and> data (timers (exec cb dat ud v) dat) = ud"
    and "callback (timers w dat) = cb" and "data (timers w dat) = ud"
  shows "drain exec k dat made w =
           Inr (made @ replicate k (cb, dat, ud), ((exec cb dat ud) ^^ k) w)"
  using assms(4,5)
proof (induction k arbitrary: made w)
  case 0
  then show ?case by simp
next
  case (Suc k)
  have kept: "callback (timers (exec cb dat ud w) dat) = cb
      \<and> data (timers (exec cb dat ud w) dat) = ud"
    using assms(3) Suc.prems by blast
  have "drain exec (Suc k) dat made w =
          drain exec k dat (made @ [(cb, dat, ud)]) (exec cb dat ud w)"
    using assms(1,2) Suc.prems by (simp add: acc_defs Let_def)
  also have "\<dots> = Inr ((made @ [(cb, dat, ud)]) @ replicate k (cb, dat, ud),
                        ((exec cb dat ud) ^^ k) (exec cb dat ud w))"
    using kept by (intro Suc.IH) simp_all
  finally show ?case
    by (simp add: funpow_swap1 replicate_append_same)
qed

section \<open>Arming\<close>

text \<open>
  C1. The claim: \<open>event_timer_start\<close> arms the kernel timer with \<open>msec\<close> milliseconds
  converted faithfully, seconds \<open>msec / 1000\<close> and nanoseconds
  \<open>(msec % 1000) * 1,000,000\<close>. The source multiplies the remainder by \<open>1000\<close>: asked for
  50 milliseconds on the example timer, it arms the kernel timer with \<open>tv_nsec = 50000\<close>,
  that is 50 microseconds, where 50 milliseconds are 50000000 nanoseconds.
\<close>

theorem start_50_milliseconds_arms_50_microseconds:
  "event_timer_start (0, 0) 1 50 example_world =
     (EM_SUCCESS,
      example_world\<lparr>calls := calls example_world @
        [Timerfd_settime 3 0 \<lparr>it_interval = \<lparr>tv_sec = 0, tv_nsec = 50000\<rparr>,
                              it_value = \<lparr>tv_sec = 0, tv_nsec = 50000\<rparr>\<rparr>]\<rparr>)
   \<and> (50000 :: int) \<noteq> (50 mod 1000) * 1000000"
  by (simp add: event_timer_start_def ext_defs acc_defs Let_def example_world_def
      example_timer_def signed_divide_int_def signed_modulo_int_def)

section \<open>Creation\<close>

text \<open>
  C2. The claim: a failing \<open>event_timer_create\<close> leaves the Timer storage with no value
  written during the call. The source assigns \<open>event_machine\<close>, \<open>data\<close> and \<open>callback\<close>
  before it asks the kernel for the timer, and returns \<open>EM_ERROR_BADFD\<close> without wiping
  them when the kernel refuses (the registration-failure path below does wipe): on
  zeroed storage the three fields hold the arguments of the failed call afterwards.
\<close>

theorem create_allocation_failure_keeps_fields:
  "event_timer_create (- 1, 24) (EM_SUCCESS, 0) (0, 0) 7 1 5 9 blank_world =
     Inr (EM_ERROR_BADFD,
          \<lparr>timers = (\<lambda>a. zeroed)
             (1 := \<lparr>event_machine = 7,
                    event_descriptor = \<lparr>fd = 0, events = 0, ed_data = NULL, handler = No_handler\<rparr>,
                    data = 9, callback = 5\<rparr>),
           errno = 24,
           calls = [Timerfd_create CLOCK_MONOTONIC (TFD_CLOEXEC OR TFD_NONBLOCK)]\<rparr>)
   \<and> timers blank_world 1 =
       \<lparr>event_machine = NULL,
        event_descriptor = \<lparr>fd = 0, events = 0, ed_data = NULL, handler = No_handler\<rparr>,
        data = NULL, callback = NULL\<rparr>"
  by (simp add: event_timer_create_def ext_defs store_def Let_def valid_fd_def
      blank_world_def zeroed_def)

text \<open>
  C4. When the kernel has handed out a valid handle \<open>d\<close> and the Reactor then refuses
  the registration with status \<open>s\<close>, \<open>event_timer_create\<close> closes \<open>d\<close> (the last call it
  makes; neither the result \<open>c\<close> of that close nor its \<open>errno\<close> \<open>e_close\<close> shows in the
  outcome), leaves the Timer storage zeroed with handle \<open>-1\<close>, leaves \<open>errno\<close> at the
  value \<open>e_add\<close> it had when the registration failed, and returns \<open>s\<close>. The Reactor keeps
  \<open>EM_ERROR_NULL\<close> and \<open>EM_ERROR_DESCRIPTOR_NULL\<close> for null arguments, which the function
  has already excluded (the source asserts that neither comes back).
\<close>

theorem create_registration_failure:
  assumes "em \<noteq> NULL" and "timer \<noteq> NULL" and "cb \<noteq> NULL"
    and "valid_fd d"
    and "s \<noteq> EM_SUCCESS" and "s \<noteq> EM_ERROR_NULL" and "s \<noteq> EM_ERROR_DESCRIPTOR_NULL"
  shows "event_timer_create (d, e_create) (s, e_add) (c, e_close) em timer cb dat w =
           Inr (s, w\<lparr>timers := (timers w)
                       (timer := \<lparr>event_machine = NULL,
                                  event_descriptor =
                                    \<lparr>fd = - 1, events = 0, ed_data = NULL, handler = No_handler\<rparr>,
                                  data = NULL, callback = NULL\<rparr>),
                     errno := e_add,
                     calls := calls w @
                       [Timerfd_create CLOCK_MONOTONIC (TFD_CLOEXEC OR TFD_NONBLOCK),
                        Event_machine_add em timer
                          \<lparr>fd = d, events = EPOLLIN, ed_data = timer,
                           handler = Internal_timeout_handler\<rparr>,
                        Close d]\<rparr>)"
  using assms
  by (simp add: event_timer_create_def ext_defs acc_defs store_def Let_def shred_eq destroyed_def)

text \<open>
  The same at a concrete input: handle \<open>3\<close>, the Reactor answering with another status and
  \<open>errno = 12\<close>, the close failing with \<open>errno = 5\<close>.
\<close>

theorem create_registration_failure_witness:
  "event_timer_create (3, 0) (EM_ERROR_OTHER 1, 12) (- 1, 5) 7 1 5 9 blank_world =
     Inr (EM_ERROR_OTHER 1,
          \<lparr>timers = (\<lambda>a. zeroed)(1 := destroyed), errno = 12,
           calls = [Timerfd_create CLOCK_MONOTONIC (TFD_CLOEXEC OR TFD_NONBLOCK),
                    Event_machine_add 7 1
                      \<lparr>fd = 3, events = EPOLLIN, ed_data = 1, handler = Internal_timeout_handler\<rparr>,
                    Close 3]\<rparr>)"
  using create_registration_failure [where em = 7 and timer = 1 and cb = 5 and d = 3
      and s = "EM_ERROR_OTHER 1" and e_create = 0 and e_add = 12 and c = "- 1" and e_close = 5
      and dat = 9 and w = blank_world]
  by (simp add: valid_fd_def blank_world_def destroyed_def)

text \<open>
  C8. \<open>event_timer_create\<close> checks the Reactor, then the timer, then the callback; each
  null argument has its own status, and the world returned is the world received: no
  call was made to the kernel or to the Reactor and no Timer field was written.
\<close>

theorem create_null_arguments:
  "(em = NULL \<longrightarrow>
      event_timer_create rc ra rx em timer cb dat w = Inr (EM_ERROR_NULL, w))
   \<and> (em \<noteq> NULL \<and> timer = NULL \<longrightarrow>
      event_timer_create rc ra rx em timer cb dat w = Inr (EM_ERROR_TIMER_NULL, w))
   \<and> (em \<noteq> NULL \<and> timer \<noteq> NULL \<and> cb = NULL \<longrightarrow>
      event_timer_create rc ra rx em timer cb dat w = Inr (EM_ERROR_CALLBACK_NULL, w))"
  by (simp add: event_timer_create_def)

text \<open>All three arguments null, then the Reactor given, then the timer given as well.\<close>

theorem create_null_arguments_witness:
  "event_timer_create (3, 0) (EM_SUCCESS, 0) (0, 0) NULL NULL NULL 9 blank_world =
     Inr (EM_ERROR_NULL, blank_world)
   \<and> event_timer_create (3, 0) (EM_SUCCESS, 0) (0, 0) 7 NULL NULL 9 blank_world =
     Inr (EM_ERROR_TIMER_NULL, blank_world)
   \<and> event_timer_create (3, 0) (EM_SUCCESS, 0) (0, 0) 7 1 NULL 9 blank_world =
     Inr (EM_ERROR_CALLBACK_NULL, blank_world)"
  using create_null_arguments [where em = NULL and timer = NULL and cb = NULL and dat = 9
      and rc = "(3, 0)" and ra = "(EM_SUCCESS, 0)" and rx = "(0, 0)" and w = blank_world]
    create_null_arguments [where em = 7 and timer = NULL and cb = NULL and dat = 9
      and rc = "(3, 0)" and ra = "(EM_SUCCESS, 0)" and rx = "(0, 0)" and w = blank_world]
    create_null_arguments [where em = 7 and timer = 1 and cb = NULL and dat = 9
      and rc = "(3, 0)" and ra = "(EM_SUCCESS, 0)" and rx = "(0, 0)" and w = blank_world]
  by simp

section \<open>Expiration dispatch\<close>

text \<open>
  C5, as the source has it. The claim is made for every invocation of the handler. It
  holds when the handler is invoked as the Reactor invokes it (Reactor not null, handle
  valid, opaque data the address of a Timer whose callback is not null) and the user
  callback leaves the \<open>callback\<close> and \<open>data\<close> fields of that Timer as they are. Then a
  full read of the count \<open>n\<close> is followed by exactly \<open>n\<close> invocations of the callback, each
  on the Timer and its stored user data, each run to its end before the next starts and
  before the handler returns; and a read that fails with \<open>EAGAIN\<close> makes the handler
  return at once, with no invocation and no fault.
\<close>

theorem handler_invocations:
  assumes "em \<noteq> NULL" and "valid_fd d" and "dat \<noteq> NULL"
    and "callback (timers w dat) = cb" and "data (timers w dat) = ud" and "cb \<noteq> NULL"
    and "\<And>v. callback (timers v dat) = cb \<Longrightarrow> data (timers v dat) = ud \<Longrightarrow>
           callback (timers (exec cb dat ud v) dat) = cb \<and> data (timers (exec cb dat ud v) dat) = ud"
  shows "internal_timeout_handler exec ((8, n), e) em evs d dat w =
           Inr (replicate (unat n) (cb, dat, ud),
                ((exec cb dat ud) ^^ unat n) (w\<lparr>errno := e, calls := calls w @ [Read d 8]\<rparr>))
         \<and> (readed \<noteq> 8 \<longrightarrow>
              internal_timeout_handler exec ((readed, n), EAGAIN) em evs d dat w =
                Inr ([], w\<lparr>errno := EAGAIN, calls := calls w @ [Read d 8]\<rparr>))"
proof -
  let ?w1 = "w\<lparr>errno := e, calls := calls w @ [Read d 8]\<rparr>"
  have "drain exec (unat n) dat [] ?w1 =
          Inr ([] @ replicate (unat n) (cb, dat, ud), ((exec cb dat ud) ^^ unat n) ?w1)"
    using assms(3,6,7) by (rule drain_steady) (simp_all add: assms(4,5))
  then show ?thesis
    using assms(1,2) by (simp add: internal_timeout_handler_def read_def)
qed

text \<open>
  On the example timer with a callback that only counts: three elapsed intervals give
  three invocations \<open>(5, 1, 9)\<close> and the count \<open>3\<close> in \<open>errno\<close>; a read that would block
  gives none.
\<close>

theorem handler_invocations_witness:
  "internal_timeout_handler counting_callback ((8, 3), 0) 7 EPOLLIN 3 1 example_world =
     Inr ([(5, 1, 9), (5, 1, 9), (5, 1, 9)],
          example_world\<lparr>errno := 3, calls := calls example_world @ [Read 3 8]\<rparr>)
   \<and> internal_timeout_handler counting_callback ((- 1, 0), EAGAIN) 7 EPOLLIN 3 1 example_world =
     Inr ([], example_world\<lparr>errno := EAGAIN, calls := calls example_world @ [Read 3 8]\<rparr>)"
proof -
  have inst:
    "internal_timeout_handler counting_callback ((8, 3), 0) 7 EPOLLIN 3 1 example_world =
       Inr (replicate (unat (3 :: 64 word)) (5, 1, 9),
            ((counting_callback 5 1 9) ^^ unat (3 :: 64 word))
              (example_world\<lparr>errno := 0, calls := calls example_world @ [Read 3 8]\<rparr>))
     \<and> (- 1 \<noteq> (8 :: int) \<longrightarrow>
          internal_timeout_handler counting_callback ((- 1, 3), EAGAIN) 7 EPOLLIN 3 1 example_world =
            Inr ([], example_world\<lparr>errno := EAGAIN, calls := calls example_world @ [Read 3 8]\<rparr>))"
    by (rule handler_invocations)
      (simp_all add: valid_fd_def example_world_def example_timer_def counting_callback_def)
  have three: "unat (3 :: 64 word) = Suc (Suc (Suc 0))"
    by simp
  have pow: "((counting_callback 5 1 9) ^^ Suc (Suc (Suc 0))) v = v\<lparr>errno := errno v + 3\<rparr>" for v
    by (simp add: counting_callback_def)
  have wb: "internal_timeout_handler counting_callback ((- 1, 0), EAGAIN) 7 EPOLLIN 3 1 example_world =
      internal_timeout_handler counting_callback ((- 1, 3), EAGAIN) 7 EPOLLIN 3 1 example_world"
    by (simp add: internal_timeout_handler_def read_def valid_fd_def)
  from inst show ?thesis
    unfolding three pow wb by simp
qed

text \<open>
  C5, as the claim has it, fails. The callback of the example timer destroys the timer;
  the kernel reports two elapsed intervals. The first round calls the callback, which
  wipes the structure; the second round reads a null callback from it and calls through
  it. The handler does not return after two invocations: the process dies in the second
  round.
\<close>

theorem handler_callback_destroys_timer:
  "internal_timeout_handler destroying_callback ((8, 2), 0) 7 EPOLLIN 3 1 example_world =
     Inl Null_call"
  by (simp add: internal_timeout_handler_def valid_fd_def drain_numeral acc_defs Let_def
      destroying_callback_def event_timer_destroy_def ext_defs shred_eq destroyed_def
      example_world_def example_timer_def)

section \<open>Destruction\<close>

text \<open>
  C6. On a non-null timer, when the Reactor refuses the removal with status \<open>s\<close>,
  \<open>event_timer_destroy\<close> still closes the handle (the last call it makes; neither the
  result \<open>c\<close> of that close nor its \<open>errno\<close> \<open>e_close\<close> shows in the outcome), leaves
  \<open>errno\<close> at the value \<open>e_delete\<close> it had when the removal failed, returns \<open>s\<close>, and
  leaves every Timer as it was: the world returned differs from the world received in
  \<open>errno\<close> and in the two calls only. The Reactor keeps \<open>EM_ERROR_NULL\<close> and
  \<open>EM_ERROR_DESCRIPTOR_NULL\<close> for null arguments, which a created timer does not give
  it (the source asserts that neither comes back).
\<close>

theorem destroy_unregistration_failure:
  assumes "timer \<noteq> NULL"
    and "s \<noteq> EM_SUCCESS" and "s \<noteq> EM_ERROR_NULL" and "s \<noteq> EM_ERROR_DESCRIPTOR_NULL"
  shows "event_timer_destroy (s, e_delete) (c, e_close) timer w =
           Inr (s, w\<lparr>errno := e_delete,
                     calls := calls w @
                       [Event_machine_delete (event_machine (timers w timer))
                          (fd (event_descriptor (timers w timer))),
                        Close (fd (event_descriptor (timers w timer)))]\<rparr>)"
  using assms
  by (simp add: event_timer_destroy_def ext_defs acc_defs Let_def)

text \<open>
  On the example timer: the removal fails with \<open>errno = 2\<close>, the close fails with
  \<open>errno = 5\<close>; the status of the removal comes back, \<open>errno\<close> is \<open>2\<close>, the timer is intact.
\<close>

theorem destroy_unregistration_failure_witness:
  "event_timer_destroy (EM_ERROR_OTHER 2, 2) (- 1, 5) 1 example_world =
     Inr (EM_ERROR_OTHER 2,
          example_world\<lparr>errno := 2,
            calls := calls example_world @ [Event_machine_delete 7 3, Close 3]\<rparr>)
   \<and> timers example_world 1 = example_timer"
  using destroy_unregistration_failure [where timer = 1 and s = "EM_ERROR_OTHER 2"
      and e_delete = 2 and c = "- 1" and e_close = 5 and w = example_world]
  by (simp add: example_world_def example_timer_def)

text \<open>
  C7. On a non-null timer whose removal from the Reactor succeeds: if the close fails
  (\<open>c < 0\<close>), \<open>EM_ERROR_CLOSE\<close> is returned and no Timer is touched; if the close succeeds,
  \<open>EM_SUCCESS\<close> is returned and the Timer is zeroed, with its handle set to \<open>-1\<close>.
\<close>

theorem destroy_after_unregistration:
  assumes "timer \<noteq> NULL"
  shows "(c < 0 \<longrightarrow>
            event_timer_destroy (EM_SUCCESS, e_delete) (c, e_close) timer w =
              Inr (EM_ERROR_CLOSE,
                   w\<lparr>errno := e_close,
                     calls := calls w @
                       [Event_machine_delete (event_machine (timers w timer))
                          (fd (event_descriptor (timers w timer))),
                        Close (fd (event_descriptor (timers w timer)))]\<rparr>))
         \<and> (0 \<le> c \<longrightarrow>
            event_timer_destroy (EM_SUCCESS, e_delete) (c, e_close) timer w =
              Inr (EM_SUCCESS,
                   w\<lparr>timers := (timers w)
                       (timer := \<lparr>event_machine = NULL,
                                  event_descriptor =
                                    \<lparr>fd = - 1, events = 0, ed_data = NULL, handler = No_handler\<rparr>,
                                  data = NULL, callback = NULL\<rparr>),
                     errno := e_close,
                     calls := calls w @
                       [Event_machine_delete (event_machine (timers w timer))
                          (fd (event_descriptor (timers w timer))),
                        Close (fd (event_descriptor (timers w timer)))]\<rparr>))"
  using assms
  by (simp add: event_timer_destroy_def ext_defs acc_defs Let_def shred_eq destroyed_def)

text \<open>On the example timer: a close that fails with \<open>errno = 5\<close>, and a close that succeeds.\<close>

theorem destroy_after_unregistration_witness:
  "event_timer_destroy (EM_SUCCESS, 0) (- 1, 5) 1 example_world =
     Inr (EM_ERROR_CLOSE,
          example_world\<lparr>errno := 5,
            calls := calls example_world @ [Event_machine_delete 7 3, Close 3]\<rparr>)
   \<and> event_timer_destroy (EM_SUCCESS, 0) (0, 0) 1 example_world =
     Inr (EM_SUCCESS,
          example_world\<lparr>timers := (\<lambda>a. zeroed)(1 := destroyed),
            calls := calls example_world @ [Event_machine_delete 7 3, Close 3]\<rparr>)"
  using destroy_after_unregistration [where timer = 1 and c = "- 1" and e_delete = 0
      and e_close = 5 and w = example_world]
    destroy_after_unregistration [where timer = 1 and c = 0 and e_delete = 0
      and e_close = 0 and w = example_world]
  by (simp add: example_world_def example_timer_def destroyed_def)

section \<open>Operations on a destroyed timer\<close>

text \<open>
  C3, as the claim has it, fails. \<open>destroyed_world\<close> is what a successful
  \<open>event_timer_destroy\<close> leaves of the example timer. There, with the kernel rejecting
  the handle \<open>-1\<close> (\<open>EBADF\<close>), \<open>event_timer_start\<close> and \<open>event_timer_stop\<close>
  return \<open>EM_ERROR_TIMERFD_SETTIME\<close>, the set-time status, which is neither the null
  status nor the invalid-handle status; and when the Reactor answers the removal for
  the null reactor stored in the wiped structure with \<open>EM_ERROR_NULL\<close>,
  \<open>event_timer_destroy\<close> stops at its assertion \<open>ret != EM_ERROR_NULL\<close>.
\<close>

theorem destroyed_timer_counterexample:
  "event_timer_destroy (EM_SUCCESS, 0) (0, 0) 1 example_world = Inr (EM_SUCCESS, destroyed_world)
   \<and> timers destroyed_world 1 = destroyed
   \<and> fst (event_timer_start (- 1, EBADF) 1 50 destroyed_world) = EM_ERROR_TIMERFD_SETTIME
   \<and> fst (event_timer_stop (- 1, EBADF) 1 destroyed_world) = EM_ERROR_TIMERFD_SETTIME
   \<and> event_timer_destroy (EM_ERROR_NULL, 0) (- 1, EBADF) 1 destroyed_world = Inl Assertion_failed"
  by (simp add: event_timer_start_def event_timer_stop_def event_timer_destroy_def ext_defs
      acc_defs Let_def shred_eq destroyed_world_def example_world_def example_timer_def)

text \<open>
  C3, as the source has it. On a Timer in the destroyed state, \<open>event_timer_start\<close> and
  \<open>event_timer_stop\<close> hand the sentinel \<open>-1\<close> to the kernel's set-time call, make no other
  call, leave every Timer as it was, and return \<open>EM_ERROR_TIMERFD_SETTIME\<close> when the
  kernel rejects the call. Whenever \<open>event_timer_destroy\<close> returns on such a Timer, the
  only handle it has passed to \<open>close\<close> is the sentinel \<open>-1\<close>, so nothing is released a
  second time, and every Timer is as it was.
\<close>

theorem destroyed_timer_operations:
  assumes "timer \<noteq> NULL"
    and "timers w timer =
           \<lparr>event_machine = NULL,
            event_descriptor = \<lparr>fd = - 1, events = 0, ed_data = NULL, handler = No_handler\<rparr>,
            data = NULL, callback = NULL\<rparr>"
  shows "(r < 0 \<longrightarrow>
            fst (event_timer_start (r, e) timer msec w) = EM_ERROR_TIMERFD_SETTIME
          \<and> fst (event_timer_stop (r, e) timer w) = EM_ERROR_TIMERFD_SETTIME)
         \<and> timers (snd (event_timer_start (r, e) timer msec w)) = timers w
         \<and> timers (snd (event_timer_stop (r, e) timer w)) = timers w
         \<and> (\<exists>v. calls (snd (event_timer_start (r, e) timer msec w)) =
                   calls w @ [Timerfd_settime (- 1) 0 v])
         \<and> (\<exists>v. calls (snd (event_timer_stop (r, e) timer w)) =
                   calls w @ [Timerfd_settime (- 1) 0 v])
         \<and> (\<forall>s w'. event_timer_destroy rd rc timer w = Inr (s, w') \<longrightarrow>
                timers w' = timers w
              \<and> calls w' = calls w @ [Event_machine_delete NULL (- 1), Close (- 1)])"
proof -
  have same: "(timers w)(timer := destroyed) = timers w"
    using assms(2) by (auto simp: destroyed_def)
  have start_stop: "(r < 0 \<longrightarrow>
            fst (event_timer_start (r, e) timer msec w) = EM_ERROR_TIMERFD_SETTIME
          \<and> fst (event_timer_stop (r, e) timer w) = EM_ERROR_TIMERFD_SETTIME)
         \<and> timers (snd (event_timer_start (r, e) timer msec w)) = timers w
         \<and> timers (snd (event_timer_stop (r, e) timer w)) = timers w
         \<and> (\<exists>v. calls (snd (event_timer_start (r, e) timer msec w)) =
                   calls w @ [Timerfd_settime (- 1) 0 v])
         \<and> (\<exists>v. calls (snd (event_timer_stop (r, e) timer w)) =
                   calls w @ [Timerfd_settime (- 1) 0 v])"
    using assms
    by (simp add: event_timer_start_def event_timer_stop_def ext_defs acc_defs Let_def)
  have destroy: "timers w' = timers w
      \<and> calls w' = calls w @ [Event_machine_delete NULL (- 1), Close (- 1)]"
    if "event_timer_destroy rd rc timer w = Inr (s, w')" for s w'
    using that assms same
    by (auto simp: event_timer_destroy_def ext_defs acc_defs Let_def shred_eq
        split: if_splits)
  from start_stop destroy show ?thesis
    by blast
qed

text \<open>
  On the timer destroyed in \<open>destroyed_world\<close>, the kernel rejecting \<open>-1\<close> with \<open>EBADF\<close> and
  the Reactor refusing the removal with a status of its own.
\<close>

theorem destroyed_timer_operations_witness:
  "fst (event_timer_start (- 1, EBADF) 1 50 destroyed_world) = EM_ERROR_TIMERFD_SETTIME
   \<and> fst (event_timer_stop (- 1, EBADF) 1 destroyed_world) = EM_ERROR_TIMERFD_SETTIME
   \<and> timers (snd (event_timer_start (- 1, EBADF) 1 50 destroyed_world)) = timers destroyed_world
   \<and> timers (snd (event_timer_stop (- 1, EBADF) 1 destroyed_world)) = timers destroyed_world
   \<and> event_timer_destroy (EM_ERROR_OTHER 2, 2) (- 1, EBADF) 1 destroyed_world =
       Inr (EM_ERROR_OTHER 2,
            destroyed_world\<lparr>errno := 2,
              calls := calls destroyed_world @ [Event_machine_delete NULL (- 1), Close (- 1)]\<rparr>)"
proof -
  have shape: "timers destroyed_world 1 =
           \<lparr>event_machine = NULL,
            event_descriptor = \<lparr>fd = - 1, events = 0, ed_data = NULL, handler = No_handler\<rparr>,
            data = NULL, callback = NULL\<rparr>"
    by (simp add: destroyed_world_def destroyed_def)
  have run: "event_timer_destroy (EM_ERROR_OTHER 2, 2) (- 1, EBADF) 1 destroyed_world =
       Inr (EM_ERROR_OTHER 2,
            destroyed_world\<lparr>errno := 2,
              calls := calls destroyed_world @ [Event_machine_delete NULL (- 1), Close (- 1)]\<rparr>)"
    by (simp add: event_timer_destroy_def ext_defs acc_defs Let_def destroyed_world_def
        destroyed_def)
  from destroyed_timer_operations [where timer = 1 and w = destroyed_world and r = "- 1"
      and e = EBADF and msec = 50 and rd = "(EM_ERROR_OTHER 2, 2)" and rc = "(- 1, EBADF)",
      OF _ shape] run
  show ?thesis by simp
qed

section \<open>Disarming\<close>

text \<open>
  C9. On a non-null timer, \<open>event_timer_stop\<close> makes one call, the kernel's set-time
  call on the timer's handle with an all-zero interval, and nothing else: every Timer is
  left as it was, and no removal from the Reactor and no close is among the calls, so
  the registration stands. The function keeps no record of a timer being stopped: it
  returns \<open>EM_SUCCESS\<close> whenever the kernel accepts the call, and a second stop, after a
  first one, returns \<open>EM_SUCCESS\<close> when the kernel accepts it, having repeated the same
  call and changed nothing else.
\<close>

theorem stop_only_disarms:
  assumes "timer \<noteq> NULL"
  shows "timers (snd (event_timer_stop (r, e) timer w)) = timers w
         \<and> calls (snd (event_timer_stop (r, e) timer w)) =
             calls w @ [Timerfd_settime (fd (event_descriptor (timers w timer))) 0
                          \<lparr>it_interval = \<lparr>tv_sec = 0, tv_nsec = 0\<rparr>,
                           it_value = \<lparr>tv_sec = 0, tv_nsec = 0\<rparr>\<rparr>]
         \<and> (0 \<le> r \<longrightarrow> fst (event_timer_stop (r, e) timer w) = EM_SUCCESS)
         \<and> (0 \<le> r' \<longrightarrow>
              event_timer_stop (r', e') timer (snd (event_timer_stop (r, e) timer w)) =
                (EM_SUCCESS,
                 w\<lparr>errno := e',
                   calls := calls w @
                     [Timerfd_settime (fd (event_descriptor (timers w timer))) 0
                        \<lparr>it_interval = \<lparr>tv_sec = 0, tv_nsec = 0\<rparr>,
                         it_value = \<lparr>tv_sec = 0, tv_nsec = 0\<rparr>\<rparr>,
                      Timerfd_settime (fd (event_descriptor (timers w timer))) 0
                        \<lparr>it_interval = \<lparr>tv_sec = 0, tv_nsec = 0\<rparr>,
                         it_value = \<lparr>tv_sec = 0, tv_nsec = 0\<rparr>\<rparr>]\<rparr>))"
  using assms
  by (simp add: event_timer_stop_def ext_defs acc_defs Let_def)

text \<open>The example timer stopped, and stopped again.\<close>

theorem stop_only_disarms_witness:
  "timers (snd (event_timer_stop (0, 0) 1 example_world)) = timers example_world
   \<and> calls (snd (event_timer_stop (0, 0) 1 example_world)) =
       calls example_world @
         [Timerfd_settime 3 0 \<lparr>it_interval = \<lparr>tv_sec = 0, tv_nsec = 0\<rparr>,
                               it_value = \<lparr>tv_sec = 0, tv_nsec = 0\<rparr>\<rparr>]
   \<and> fst (event_timer_stop (0, 0) 1 example_world) = EM_SUCCESS
   \<and> fst (event_timer_stop (0, 0) 1 (snd (event_timer_stop (0, 0) 1 example_world))) = EM_SUCCESS"
  using stop_only_disarms [where timer = 1 and r = 0 and e = 0 and r' = 0 and e' = 0
      and w = example_world]
  by (simp add: example_world_def example_timer_def)

text \<open>
  C10. \<open>event_timer_stop (timer)\<close> and \<open>event_timer_start (timer, 0)\<close> cannot be told
  apart: for every timer argument, null or not, for every answer of the kernel and in
  every state, they return the same status and leave the same state, that is the same
  single set-time call with an all-zero interval on the same handle.
\<close>

theorem stop_is_start_zero:
  "event_timer_stop r timer w = event_timer_start r timer 0 w"
  by (simp add: event_timer_stop_def event_timer_start_def Let_def)

end
